theory Spec2Isabelle
  imports Complex_Main
begin

section \<open>Stoichiometry from a dimer: the functions of \<open>Script_stoichiometry_from_dimer.py\<close>\<close>

text \<open>
  The script has five functions. \<open>rmsd\<close>, \<open>min_rmsd\<close> and \<open>predict_stoichiometry\<close> are
  embedded in full; \<open>rmsd_list_from_dimer\<close> is embedded with its two collaborators (the PyMOL
  session behind \<open>cmd\<close> and \<open>mdtraj.load\<close>) as parameters; \<open>draw_rmsd_curve\<close> only plots
  and is left out.

  Coordinates and RMSD values are modelled as real numbers: rounding, overflow and NaN of
  the machine floats are outside the model. Python integers are \<open>int\<close>. Every exception
  the interpreter can raise in these functions is a value \<open>Inl e\<close> of the result type.
\<close>

subsection \<open>Exceptions and sequencing\<close>

datatype error = IndexError | ZeroDivisionError | ValueError | TypeError | LibraryError string

text \<open>\<open>bindE m f\<close>: evaluate \<open>m\<close>; an exception ends the evaluation, a value goes on to \<open>f\<close>.\<close>

definition bindE :: "error + 'a \<Rightarrow> ('a \<Rightarrow> error + 'b) \<Rightarrow> error + 'b" where
  "bindE m f = (case m of Inl e \<Rightarrow> Inl e | Inr v \<Rightarrow> f v)"

subsection \<open>Python built-ins used by the script\<close>

text \<open>\<open>range(a, b)\<close>: the integers from \<open>a\<close> up to \<open>b - 1\<close>, none when \<open>b \<le> a\<close>.\<close>

definition range_py :: "int \<Rightarrow> int \<Rightarrow> int list" where
  "range_py a b = [a..b - 1]"

text \<open>
  \<open>xs[k]\<close> on a list or an array axis: a negative subscript counts from the end, a
  subscript outside \<open>-len \<le> k < len\<close> raises \<open>IndexError\<close>.
\<close>

definition getitem :: "'a list \<Rightarrow> int \<Rightarrow> error + 'a" where
  "getitem xs k =
     (if 0 \<le> k \<and> k < int (length xs) then Inr (xs ! nat k)
      else if - int (length xs) \<le> k \<and> k < 0 then Inr (xs ! nat (k + int (length xs)))
      else Inl IndexError)"

text \<open>\<open>s[:-4]\<close>: everything but the last four characters; empty when there are at most four.\<close>

definition drop_last4 :: "string \<Rightarrow> string" where
  "drop_last4 s = take (length s - 4) s"

text \<open>\<open>str(i)\<close> on an integer: its decimal digits, with a leading minus sign when negative.\<close>

definition digit_char :: "nat \<Rightarrow> char" where
  "digit_char d = ''0123456789'' ! d"

fun str_nat :: "nat \<Rightarrow> string" where
  "str_nat n = (if n < 10 then [digit_char n] else str_nat (n div 10) @ [digit_char (n mod 10)])"

declare str_nat.simps [simp del]

definition str :: "int \<Rightarrow> string" where
  "str i = (if i < 0 then CHR ''-'' # str_nat (nat (- i)) else str_nat (nat i))"

text \<open>
  A \<open>for\<close> loop that updates one variable: the body runs once per element, in order, and an
  exception in the body ends the loop.
\<close>

fun for_loop :: "'i list \<Rightarrow> ('i \<Rightarrow> 's \<Rightarrow> error + 's) \<Rightarrow> 's \<Rightarrow> error + 's" where
  "for_loop [] body s = Inr s"
| "for_loop (i # rest) body s =
     (case body i s of Inl e \<Rightarrow> Inl e | Inr s' \<Rightarrow> for_loop rest body s')"

subsection \<open>The structure\<close>

text \<open>
  What the script reads of an mdtraj trajectory: \<open>topology.atoms\<close>, each atom with its
  \<open>index\<close> and its \<open>residue.chain.index\<close>, and the coordinate array \<open>xyz\<close> of shape
  (frames, atoms, 3). The last axis always has the three entries x, y, z, so an atom's row
  is a triple. The record is named after mdtraj's class \<open>Trajectory\<close>; the script's
  variables \<open>structure\<close> and \<open>struct\<close> hold one.
\<close>

record atom =
  index :: int
  chain_index :: int

record trajectory =
  atoms :: "atom list"
  xyz :: "(real \<times> real \<times> real) list list"

text \<open>\<open>row[k]\<close> for the subscripts 0, 1 and 2 the script uses.\<close>

definition axis :: "nat \<Rightarrow> real \<times> real \<times> real \<Rightarrow> real" where
  "axis k row = (case row of (x, y, z) \<Rightarrow> if k = 0 then x else if k = 1 then y else z)"

subsection \<open>\<open>rmsd\<close>\<close>

text \<open>\<open>structure.xyz[0][chain[i]][k]\<close>: frame 0 first, then the chain entry, then the atom's row.\<close>

definition coord :: "trajectory \<Rightarrow> int list \<Rightarrow> int \<Rightarrow> nat \<Rightarrow> error + real" where
  "coord structure chain i k =
     bindE (getitem (xyz structure) 0) (\<lambda>frame.
     bindE (getitem chain i) (\<lambda>a.
     bindE (getitem frame a) (\<lambda>row. Inr (axis k row))))"

text \<open>\<open>pow(structure.xyz[0][chain_1[i]][k] - structure.xyz[0][chain_2[i]][k], 2)\<close>\<close>

definition sq_diff :: "int list \<Rightarrow> int list \<Rightarrow> trajectory \<Rightarrow> int \<Rightarrow> nat \<Rightarrow> error + real" where
  "sq_diff chain_1 chain_2 structure i k =
     bindE (coord structure chain_1 i k) (\<lambda>u.
     bindE (coord structure chain_2 i k) (\<lambda>v. Inr ((u - v)\<^sup>2)))"

text \<open>The three \<open>summ += ...\<close> statements of one iteration.\<close>

definition rmsd_body :: "int list \<Rightarrow> int list \<Rightarrow> trajectory \<Rightarrow> int \<Rightarrow> real \<Rightarrow> error + real" where
  "rmsd_body chain_1 chain_2 structure i summ =
     bindE (sq_diff chain_1 chain_2 structure i 0) (\<lambda>d0.
     bindE (sq_diff chain_1 chain_2 structure i 1) (\<lambda>d1.
     bindE (sq_diff chain_1 chain_2 structure i 2) (\<lambda>d2. Inr (summ + d0 + d1 + d2))))"

text \<open>
  \<open>summ/N\<close> raises \<open>ZeroDivisionError\<close> when \<open>N\<close> is 0 (then \<open>summ\<close> is still the integer 0);
  \<open>math.sqrt\<close> raises \<open>ValueError\<close> on a negative argument.
\<close>

definition rmsd :: "int list \<Rightarrow> int list \<Rightarrow> trajectory \<Rightarrow> error + real" where
  "rmsd chain_1 chain_2 structure =
     (let N = int (length chain_1) in
      bindE (for_loop (range_py 0 N) (rmsd_body chain_1 chain_2 structure) 0) (\<lambda>summ.
        if N = 0 then Inl ZeroDivisionError
        else if summ / real_of_int N < 0 then Inl ValueError
        else Inr (sqrt (summ / real_of_int N) * 10)))"

subsection \<open>\<open>min_rmsd\<close>\<close>

text \<open>
  The loop returns from inside its body, so its result is the function's: \<open>Some i\<close> for
  \<open>return i\<close>, \<open>None\<close> when the loop ends and the function falls off its end. The second
  comparison of the \<open>and\<close> is evaluated only when the first one holds.
\<close>

fun min_rmsd_scan :: "real list \<Rightarrow> int list \<Rightarrow> error + int option" where
  "min_rmsd_scan rmsd_list [] = Inr None"
| "min_rmsd_scan rmsd_list (i # rest) =
     bindE (getitem rmsd_list i) (\<lambda>v.
     bindE (getitem rmsd_list (i - 1)) (\<lambda>l.
       if v < l then
         bindE (getitem rmsd_list i) (\<lambda>v'.
         bindE (getitem rmsd_list (i + 1)) (\<lambda>r.
           if v' < r then Inr (Some i) else min_rmsd_scan rmsd_list rest))
       else min_rmsd_scan rmsd_list rest))"

definition min_rmsd :: "real list \<Rightarrow> error + int option" where
  "min_rmsd rmsd_list = min_rmsd_scan rmsd_list (range_py 2 (int (length rmsd_list) - 1))"

subsection \<open>\<open>rmsd_list_from_dimer\<close>\<close>

text \<open>
  The calls on PyMOL's \<open>cmd\<close> module, in the order of the source. None of them returns
  anything the script uses, so the calls the function makes are a list that depends on its
  arguments only.
\<close>

datatype pymol_cmd =
    Reinitialize
  | Load string
  | Copy string string
  | Align string string
  | Delete string
  | Select string
  | Save string

definition pymol_calls :: "string \<Rightarrow> string \<Rightarrow> int \<Rightarrow> string \<Rightarrow> pymol_cmd list" where
  "pymol_calls filepath filename list_len temp_file =
     [Reinitialize, Load (filepath @ ''/'' @ filename)]
     @ map (\<lambda>i. Copy (''c'' @ str i) (drop_last4 filename)) (range_py 0 list_len)
     @ map (\<lambda>i. Align (''/c'' @ str (i + 1) @ ''//A'') (''/c'' @ str i @ ''//B''))
         (range_py 0 (list_len - 1))
     @ map (\<lambda>i. Delete (''/c'' @ str (i + 1) @ ''//A'')) (range_py 0 list_len)
     @ [Select ''all'', Save temp_file]"

text \<open>
  The collaborators: what one PyMOL call does to the world (the session and the files on
  disk) and what \<open>md.load\<close> reads from it. Either may raise.
\<close>

record 'w library =
  pymol :: "pymol_cmd \<Rightarrow> 'w \<Rightarrow> error + 'w"
  md_load :: "string \<Rightarrow> 'w \<Rightarrow> error + trajectory"

text \<open>\<open>[atom.index for atom in struct.topology.atoms if atom.residue.chain.index == i]\<close>\<close>

definition chain_of :: "trajectory \<Rightarrow> int \<Rightarrow> int list" where
  "chain_of struct i = map index (filter (\<lambda>a. chain_index a = i) (atoms struct))"

text \<open>One iteration of the last loop: \<open>rmsd_list.append(rmsd(chain_list[0], chain_list[2*i], struct))\<close>.\<close>

definition append_rmsd :: "int list list \<Rightarrow> trajectory \<Rightarrow> int \<Rightarrow> real list \<Rightarrow> error + real list" where
  "append_rmsd chain_list struct i rmsd_list =
     bindE (getitem chain_list 0) (\<lambda>c0.
     bindE (getitem chain_list (2 * i)) (\<lambda>c.
     bindE (rmsd c0 c struct) (\<lambda>r. Inr (rmsd_list @ [r]))))"

definition rmsd_list_from_dimer ::
  "'w library \<Rightarrow> 'w \<Rightarrow> string \<Rightarrow> string \<Rightarrow> int \<Rightarrow> string \<Rightarrow> error + real list" where
  "rmsd_list_from_dimer lib w filepath filename list_len temp_file =
     bindE (for_loop (pymol_calls filepath filename list_len temp_file) (pymol lib) w) (\<lambda>w'.
     bindE (md_load lib temp_file w') (\<lambda>struct.
       let chain_list = map (chain_of struct) (range_py 0 (2 * list_len))
       in for_loop (range_py 0 list_len) (append_rmsd chain_list struct) []))"

subsection \<open>\<open>predict_stoichiometry\<close>\<close>

text \<open>
  \<open>min_rmsd(...) - 1\<close>: subtracting from \<open>None\<close> raises \<open>TypeError\<close>. The scratch file is the
  default argument of \<open>rmsd_list_from_dimer\<close>.
\<close>

definition predict_stoichiometry :: "'w library \<Rightarrow> 'w \<Rightarrow> string \<Rightarrow> string \<Rightarrow> int \<Rightarrow> error + int" where
  "predict_stoichiometry lib w filepath filename max_expected_stoichiometry =
     bindE (rmsd_list_from_dimer lib w filepath filename max_expected_stoichiometry
              ''temporary_file.pdb'') (\<lambda>rmsd_list.
     bindE (min_rmsd rmsd_list) (\<lambda>m.
       case m of None \<Rightarrow> Inl TypeError | Some i \<Rightarrow> Inr (i - 1)))"

subsection \<open>The properties, in the words of the specification\<close>

text \<open>A strict local minimum at \<open>i\<close>: the value there is below both of its neighbours.\<close>

definition strict_local_min :: "real list \<Rightarrow> int \<Rightarrow> bool" where
  "strict_local_min xs i = (xs ! nat i < xs ! nat (i - 1) \<and> xs ! nat i < xs ! nat (i + 1))"

text \<open>A valid atom index: frame 0 exists and the index is a position in it.\<close>

definition valid_atom_index :: "trajectory \<Rightarrow> int \<Rightarrow> bool" where
  "valid_atom_index s a = (xyz s \<noteq> [] \<and> 0 \<le> a \<and> a < int (length (hd (xyz s))))"

definition atom_xyz :: "trajectory \<Rightarrow> int \<Rightarrow> real \<times> real \<times> real" where
  "atom_xyz s a = hd (xyz s) ! nat a"

text \<open>The squared differences in x, y and z between two atoms, added up.\<close>

definition sq_dist :: "real \<times> real \<times> real \<Rightarrow> real \<times> real \<times> real \<Rightarrow> real" where
  "sq_dist p q =
     (case p of (x1, y1, z1) \<Rightarrow> case q of (x2, y2, z2) \<Rightarrow>
        (x1 - x2)\<^sup>2 + (y1 - y2)\<^sup>2 + (z1 - z2)\<^sup>2)"

subsection \<open>Concrete inputs\<close>

text \<open>A library whose PyMOL calls all succeed and whose \<open>md.load\<close> returns a given structure.\<close>

definition fixed_library :: "trajectory \<Rightarrow> unit library" where
  "fixed_library t = \<lparr>pymol = (\<lambda>c w. Inr w), md_load = (\<lambda>f w. Inr t)\<rparr>"

text \<open>Two atoms, one per chain, one unit apart on the x axis.\<close>

definition two_atoms :: trajectory where
  "two_atoms =
     \<lparr>atoms = [\<lparr>index = 0, chain_index = 0\<rparr>, \<lparr>index = 1, chain_index = 1\<rparr>],
      xyz = [[(0, 0, 0), (1, 0, 0)]]\<rparr>"

text \<open>
  Eight chains of one atom each. The atoms of the even chains lie on the x axis at 0, 2, 1
  and 3, so the distances from chain 0 rise, dip at the third protomer and rise again.
\<close>

definition eight_chains :: trajectory where
  "eight_chains =
     \<lparr>atoms = [\<lparr>index = 0, chain_index = 0\<rparr>, \<lparr>index = 1, chain_index = 1\<rparr>,
               \<lparr>index = 2, chain_index = 2\<rparr>, \<lparr>index = 3, chain_index = 3\<rparr>,
               \<lparr>index = 4, chain_index = 4\<rparr>, \<lparr>index = 5, chain_index = 5\<rparr>,
               \<lparr>index = 6, chain_index = 6\<rparr>, \<lparr>index = 7, chain_index = 7\<rparr>],
      xyz = [[(0, 0, 0), (0, 1, 0), (2, 0, 0), (2, 1, 0),
              (1, 0, 0), (1, 1, 0), (3, 0, 0), (3, 1, 0)]]\<rparr>"

section \<open>Auxiliary facts\<close>

subsection \<open>Sequencing, subscripts and ranges\<close>

lemma bindE_Inr [simp]: "bindE (Inr v) f = f v"
  by (simp add: bindE_def)

lemma bindE_Inl [simp]: "bindE (Inl e) f = Inl e"
  by (simp add: bindE_def)

lemma bindE_eq_Inr: "bindE m f = Inr r \<longleftrightarrow> (\<exists>v. m = Inr v \<and> f v = Inr r)"
  by (cases m) simp_all

lemma getitem_in_range: "0 \<le> k \<Longrightarrow> k < int (length xs) \<Longrightarrow> getitem xs k = Inr (xs ! nat k)"
  by (simp add: getitem_def)

lemma getitem_error: "getitem xs k = Inl e \<Longrightarrow> e = IndexError"
  by (simp add: getitem_def split: if_splits)

lemma getitem_at_length: "getitem xs (int (length xs)) = Inl IndexError"
  by (simp add: getitem_def)

lemma range_py_nat: "range_py 0 (int n) = map int [0..<n]"
proof (induction n)
  case 0
  show ?case by (simp add: range_py_def)
next
  case (Suc n)
  have "[0..int n] = [0..int n - 1] @ [int n]"
    by (rule upto_rec2) simp
  with Suc show ?case by (simp add: range_py_def)
qed

lemma range_py_Cons: "a < b \<Longrightarrow> range_py a b = a # range_py (a + 1) b"
  by (simp add: range_py_def upto_rec1)

lemma length_range_py: "length (range_py a b) = nat (b - a)"
  by (simp add: range_py_def)

lemma for_loop_append:
  "for_loop (xs @ ys) body s = bindE (for_loop xs body s) (for_loop ys body)"
  by (induction xs arbitrary: s) (auto split: sum.splits)

lemma for_loop_error:
  assumes "\<And>i s e. body i s = Inl e \<Longrightarrow> e = err"
  shows "for_loop idxs body s = Inl e \<Longrightarrow> e = err"
proof (induction idxs arbitrary: s)
  case Nil
  then show ?case by simp
next
  case (Cons i rest)
  then show ?case
    using assms by (auto split: sum.splits)
qed

lemma sqrt_4: "sqrt 4 = 2"
  using real_sqrt_abs[of 2] by simp

lemma sqrt_9: "sqrt 9 = 3"
  using real_sqrt_abs[of 3] by simp

subsection \<open>The first hit of a scan over a range\<close>

lemma find_upto_Some:
  "find P [a..b] = Some i \<longleftrightarrow> a \<le> i \<and> i \<le> b \<and> P i \<and> (\<forall>j. a \<le> j \<and> j < i \<longrightarrow> \<not> P j)"
proof (induction a b rule: upto.induct)
  case (1 a b)
  show ?case
  proof (cases "a \<le> b")
    case False
    then show ?thesis by simp
  next
    case True
    then have unfold: "[a..b] = a # [a + 1..b]"
      by (simp add: upto_rec1)
    show ?thesis
    proof (cases "P a")
      case Pa: True
      have found: "find P [a..b] = Some a"
        using unfold Pa by simp
      show ?thesis
      proof
        assume "find P [a..b] = Some i"
        with found have "i = a" by simp
        with Pa True show "a \<le> i \<and> i \<le> b \<and> P i \<and> (\<forall>j. a \<le> j \<and> j < i \<longrightarrow> \<not> P j)"
          by auto
      next
        assume r: "a \<le> i \<and> i \<le> b \<and> P i \<and> (\<forall>j. a \<le> j \<and> j < i \<longrightarrow> \<not> P j)"
        have "\<not> a < i"
        proof
          assume "a < i"
          with r have "\<not> P a" by simp
          with Pa show False by simp
        qed
        with r have "i = a" by simp
        with found show "find P [a..b] = Some i" by simp
      qed
    next
      case nPa: False
      have skip: "find P [a..b] = find P [a + 1..b]"
        using unfold nPa by simp
      have IH: "find P [a + 1..b] = Some i \<longleftrightarrow>
                  a + 1 \<le> i \<and> i \<le> b \<and> P i \<and> (\<forall>j. a + 1 \<le> j \<and> j < i \<longrightarrow> \<not> P j)"
        by (rule "1.IH"[OF True])
      show ?thesis
      proof
        assume "find P [a..b] = Some i"
        with skip IH have r: "a + 1 \<le> i" "i \<le> b" "P i" "\<forall>j. a + 1 \<le> j \<and> j < i \<longrightarrow> \<not> P j"
          by simp_all
        have "\<not> P j" if "a \<le> j \<and> j < i" for j
        proof (cases "j = a")
          case True
          with nPa show ?thesis by simp
        next
          case False
          with that have "a + 1 \<le> j \<and> j < i" by simp
          with r(4) show ?thesis by simp
        qed
        with r show "a \<le> i \<and> i \<le> b \<and> P i \<and> (\<forall>j. a \<le> j \<and> j < i \<longrightarrow> \<not> P j)"
          by simp
      next
        assume r: "a \<le> i \<and> i \<le> b \<and> P i \<and> (\<forall>j. a \<le> j \<and> j < i \<longrightarrow> \<not> P j)"
        with nPa have "i \<noteq> a" by auto
        with r have "a + 1 \<le> i \<and> i \<le> b \<and> P i \<and> (\<forall>j. a + 1 \<le> j \<and> j < i \<longrightarrow> \<not> P j)"
          by simp
        with IH skip show "find P [a..b] = Some i" by simp
      qed
    qed
  qed
qed

lemma find_upto_None:
  "find P [a..b] = None \<longleftrightarrow> (\<forall>j. a \<le> j \<and> j \<le> b \<longrightarrow> \<not> P j)"
  by (auto simp: find_None_iff)

subsection \<open>\<open>min_rmsd\<close> never reads outside the list\<close>

lemma min_rmsd_scan_step:
  assumes "1 \<le> i" and "i + 1 < int (length xs)"
  shows "min_rmsd_scan xs (i # rest) =
           (if strict_local_min xs i then Inr (Some i) else min_rmsd_scan xs rest)"
  using assms by (simp add: getitem_in_range strict_local_min_def)

lemma min_rmsd_scan_find:
  "\<forall>i\<in>set idxs. 1 \<le> i \<and> i + 1 < int (length xs) \<Longrightarrow>
     min_rmsd_scan xs idxs = Inr (find (strict_local_min xs) idxs)"
proof (induction idxs)
  case Nil
  show ?case by simp
next
  case (Cons i rest)
  then have "min_rmsd_scan xs (i # rest) =
           (if strict_local_min xs i then Inr (Some i) else min_rmsd_scan xs rest)"
    by (intro min_rmsd_scan_step) simp_all
  with Cons show ?case by simp
qed

lemma min_rmsd_find:
  "min_rmsd xs = Inr (find (strict_local_min xs) [2..int (length xs) - 2])"
  unfolding min_rmsd_def range_py_def
  by (simp add: min_rmsd_scan_find)

lemma min_rmsd_Some_iff:
  "min_rmsd xs = Inr (Some i) \<longleftrightarrow>
     2 \<le> i \<and> i \<le> int (length xs) - 2 \<and> strict_local_min xs i \<and>
     (\<forall>j. 2 \<le> j \<and> j < i \<longrightarrow> \<not> strict_local_min xs j)"
  by (simp add: min_rmsd_find find_upto_Some)

lemma min_rmsd_None_iff:
  "min_rmsd xs = Inr None \<longleftrightarrow>
     (\<forall>j. 2 \<le> j \<and> j \<le> int (length xs) - 2 \<longrightarrow> \<not> strict_local_min xs j)"
  by (simp add: min_rmsd_find find_upto_None)

lemmas min_rmsd_eval = min_rmsd_def range_py_def getitem_def bindE_def upto.simps

subsection \<open>One iteration of the loop of \<open>rmsd\<close>, and the loop\<close>

lemma coord_error: "coord s c i k = Inl e \<Longrightarrow> e = IndexError"
  unfolding coord_def bindE_def
  by (auto split: sum.splits dest: getitem_error)

lemma coord_valid:
  assumes "i < length c" and "valid_atom_index s (c ! i)"
  shows "coord s c (int i) k = Inr (axis k (atom_xyz s (c ! i)))"
proof -
  from assms(2) obtain frame rest where f: "xyz s = frame # rest"
    by (cases "xyz s") (auto simp: valid_atom_index_def)
  then have "getitem (xyz s) 0 = Inr frame"
    by (simp add: getitem_def)
  moreover have "getitem c (int i) = Inr (c ! i)"
    using assms(1) by (simp add: getitem_def)
  moreover have "getitem frame (c ! i) = Inr (frame ! nat (c ! i))"
    using assms(2) f by (simp add: getitem_def valid_atom_index_def)
  ultimately show ?thesis
    using f by (simp add: coord_def atom_xyz_def)
qed

lemma coord_beyond: "coord s c (int (length c)) k = Inl IndexError"
  unfolding coord_def bindE_def
  by (auto split: sum.splits dest: getitem_error simp: getitem_at_length)

lemma coord_take: "i < int n \<Longrightarrow> 0 \<le> i \<Longrightarrow> n \<le> length c \<Longrightarrow> coord s (take n c) i k = coord s c i k"
  by (simp add: coord_def getitem_def)

lemma sq_diff_error: "sq_diff c1 c2 s i k = Inl e \<Longrightarrow> e = IndexError"
  unfolding sq_diff_def bindE_def
  by (auto split: sum.splits dest: coord_error)

lemma sq_diff_commute: "sq_diff c1 c2 s i k = sq_diff c2 c1 s i k"
proof (cases "coord s c1 i k")
  case l1: (Inl e1)
  then have "e1 = IndexError" by (rule coord_error)
  with l1 show ?thesis
    unfolding sq_diff_def bindE_def by (auto split: sum.splits dest: coord_error)
next
  case r1: (Inr u)
  show ?thesis
  proof (cases "coord s c2 i k")
    case (Inl e2)
    then have "e2 = IndexError" by (rule coord_error)
    with Inl r1 show ?thesis by (simp add: sq_diff_def)
  next
    case (Inr v)
    with r1 show ?thesis by (simp add: sq_diff_def power2_commute)
  qed
qed

lemma sq_diff_self: "sq_diff c c s i k = Inr d \<Longrightarrow> d = 0"
  unfolding sq_diff_def bindE_def by (auto split: sum.splits)

lemma sq_diff_beyond: "sq_diff c1 c2 s (int (length c2)) k = Inl IndexError"
  unfolding sq_diff_def bindE_def
  by (auto split: sum.splits dest: coord_error simp: coord_beyond)

lemma rmsd_body_error: "rmsd_body c1 c2 s i acc = Inl e \<Longrightarrow> e = IndexError"
  unfolding rmsd_body_def bindE_def
  by (auto split: sum.splits dest: sq_diff_error)

lemma rmsd_body_commute: "rmsd_body c1 c2 s i acc = rmsd_body c2 c1 s i acc"
  unfolding rmsd_body_def by (simp add: sq_diff_commute[of c1 c2])

lemma rmsd_body_self:
  assumes "rmsd_body c c s i acc = Inr acc'"
  shows "acc' = acc"
proof -
  from assms obtain d0 d1 d2 where d: "sq_diff c c s i 0 = Inr d0" "sq_diff c c s i 1 = Inr d1"
      "sq_diff c c s i 2 = Inr d2" "acc' = acc + d0 + d1 + d2"
    unfolding rmsd_body_def by (auto simp: bindE_eq_Inr)
  from d(1-3) have "d0 = 0" "d1 = 0" "d2 = 0"
    by (auto dest: sq_diff_self)
  with d(4) show ?thesis by simp
qed

lemma rmsd_body_beyond: "rmsd_body c1 c2 s (int (length c2)) acc = Inl IndexError"
  by (simp add: rmsd_body_def sq_diff_beyond)

lemma axis_sq_dist:
  "(axis 0 p - axis 0 q)\<^sup>2 + (axis 1 p - axis 1 q)\<^sup>2 + (axis 2 p - axis 2 q)\<^sup>2 = sq_dist p q"
  by (cases p, cases q) (simp add: axis_def sq_dist_def)

lemma rmsd_body_valid:
  assumes "i < length c1" and "i < length c2"
    and "valid_atom_index s (c1 ! i)" and "valid_atom_index s (c2 ! i)"
  shows "rmsd_body c1 c2 s (int i) acc = Inr (acc + sq_dist (atom_xyz s (c1 ! i)) (atom_xyz s (c2 ! i)))"
  using assms axis_sq_dist[of "atom_xyz s (c1 ! i)" "atom_xyz s (c2 ! i)"]
  by (simp add: rmsd_body_def sq_diff_def coord_valid)

lemma rmsd_body_take:
  "0 \<le> i \<Longrightarrow> i < int n \<Longrightarrow> n \<le> length c2 \<Longrightarrow> rmsd_body c1 (take n c2) s i acc = rmsd_body c1 c2 s i acc"
  by (simp add: rmsd_body_def sq_diff_def coord_take)

lemma rmsd_loop_error: "for_loop idxs (rmsd_body c1 c2 s) acc = Inl e \<Longrightarrow> e = IndexError"
  by (rule for_loop_error[where body = "rmsd_body c1 c2 s"]) (rule rmsd_body_error)

lemma rmsd_loop_self: "for_loop idxs (rmsd_body c c s) acc = Inr acc' \<Longrightarrow> acc' = acc"
proof (induction idxs arbitrary: acc)
  case Nil
  then show ?case by simp
next
  case (Cons i rest)
  then show ?case
    by (auto split: sum.splits dest: rmsd_body_self)
qed

lemma rmsd_loop_valid:
  assumes "n \<le> length c1" and "n \<le> length c2"
    and "\<forall>i<n. valid_atom_index s (c1 ! i) \<and> valid_atom_index s (c2 ! i)"
  shows "for_loop (map int [0..<n]) (rmsd_body c1 c2 s) 0 =
           Inr (\<Sum>i<n. sq_dist (atom_xyz s (c1 ! i)) (atom_xyz s (c2 ! i)))"
  using assms
proof (induction n)
  case 0
  show ?case by simp
next
  case (Suc n)
  then have IH: "for_loop (map int [0..<n]) (rmsd_body c1 c2 s) 0 =
           Inr (\<Sum>i<n. sq_dist (atom_xyz s (c1 ! i)) (atom_xyz s (c2 ! i)))"
    by simp
  have body: "rmsd_body c1 c2 s (int n) acc =
      Inr (acc + sq_dist (atom_xyz s (c1 ! n)) (atom_xyz s (c2 ! n)))" for acc
    using Suc.prems by (intro rmsd_body_valid) simp_all
  show ?case
    by (simp add: for_loop_append IH body)
qed

lemma rmsd_loop_take:
  assumes "n \<le> length c2" and "\<forall>i\<in>set idxs. 0 \<le> i \<and> i < int n"
  shows "for_loop idxs (rmsd_body c1 (take n c2) s) acc = for_loop idxs (rmsd_body c1 c2 s) acc"
  using assms(2)
proof (induction idxs arbitrary: acc)
  case Nil
  show ?case by simp
next
  case (Cons i rest)
  then have "rmsd_body c1 (take n c2) s i acc = rmsd_body c1 c2 s i acc"
    using assms(1) by (intro rmsd_body_take) simp_all
  with Cons show ?case by (simp split: sum.splits)
qed

lemma rmsd_loop_short:
  assumes "length c2 < n"
  shows "for_loop (map int [0..<n]) (rmsd_body c1 c2 s) acc = Inl IndexError"
proof -
  let ?m = "length c2"
  have "[0..<n] = [0..<?m] @ ?m # [Suc ?m..<n]"
    using assms by (metis le0 upt_conv_Cons upt_add_eq_append le_add_diff_inverse less_imp_le_nat add.left_neutral)
  then have split: "map int [0..<n] = map int [0..<?m] @ int ?m # map int [Suc ?m..<n]"
    by simp
  show ?thesis
  proof (cases "for_loop (map int [0..<?m]) (rmsd_body c1 c2 s) acc")
    case (Inl e)
    then have "e = IndexError" by (rule rmsd_loop_error)
    with Inl show ?thesis by (simp add: split for_loop_append)
  next
    case (Inr acc')
    then show ?thesis by (simp add: split for_loop_append rmsd_body_beyond)
  qed
qed

lemma sum_sq_dist_nonneg: "0 \<le> (\<Sum>i<n. sq_dist (f i) (g i))"
  by (rule sum_nonneg) (auto simp: sq_dist_def split: prod.splits)

lemma rmsd_self: "rmsd c c s = Inr r \<Longrightarrow> r = 0"
  unfolding rmsd_def Let_def
  by (auto simp: bindE_eq_Inr split: if_splits dest: rmsd_loop_self)

subsection \<open>The loop that builds the RMSD list\<close>

lemma append_rmsd_Inr:
  assumes "append_rmsd chain_list st i acc = Inr l"
  shows "\<exists>c0 c r. getitem chain_list 0 = Inr c0 \<and> getitem chain_list (2 * i) = Inr c \<and>
           rmsd c0 c st = Inr r \<and> l = acc @ [r]"
  using assms unfolding append_rmsd_def by (auto simp: bindE_eq_Inr)

lemma append_loop_extends:
  "for_loop idxs (append_rmsd chain_list st) acc = Inr l \<Longrightarrow>
     length l = length acc + length idxs \<and> take (length acc) l = acc"
proof (induction idxs arbitrary: acc)
  case Nil
  then show ?case by simp
next
  case (Cons i rest)
  from Cons.prems obtain acc' where
    step: "append_rmsd chain_list st i acc = Inr acc'" and
    rest: "for_loop rest (append_rmsd chain_list st) acc' = Inr l"
    by (auto split: sum.splits)
  from append_rmsd_Inr[OF step] obtain r where acc': "acc' = acc @ [r]"
    by blast
  from Cons.IH[OF rest] have "length l = length acc' + length rest" "take (length acc') l = acc'"
    by simp_all
  with acc' have "length l = length acc + length (i # rest)" "take (Suc (length acc)) l = acc @ [r]"
    by simp_all
  moreover have "take (length acc) l = acc"
  proof -
    have "take (length acc) l = take (length acc) (take (Suc (length acc)) l)"
      by (simp add: min_def)
    also have "\<dots> = acc"
      using \<open>take (Suc (length acc)) l = acc @ [r]\<close> by simp
    finally show ?thesis .
  qed
  ultimately show ?case by simp
qed

subsection \<open>Evaluation on the concrete inputs\<close>

lemmas rmsd_eval = rmsd_def rmsd_body_def sq_diff_def coord_def getitem_def bindE_def axis_def
  range_py_def upto.simps

lemmas rmsd_list_eval = rmsd_list_from_dimer_def pymol_calls_def str_def str_nat.simps
  digit_char_def drop_last4_def fixed_library_def chain_of_def append_rmsd_def rmsd_eval

lemma eight_chains_4:
  "rmsd_list_from_dimer (fixed_library eight_chains) () ''.'' ''dimer.pdb'' 4 ''temporary_file.pdb''
     = Inr [0, 20, 10, 30]"
  by (simp add: rmsd_list_eval eight_chains_def sqrt_4 sqrt_9)

lemma eight_chains_3:
  "rmsd_list_from_dimer (fixed_library eight_chains) () ''.'' ''dimer.pdb'' 3 ''temporary_file.pdb''
     = Inr [0, 20, 10]"
  by (simp add: rmsd_list_eval eight_chains_def sqrt_4)

lemma min_rmsd_dip: "min_rmsd [0, 20, 10, 30] = Inr (Some 2)"
  by (simp add: min_rmsd_eval)

lemma min_rmsd_no_dip: "min_rmsd [0, 20, 10] = Inr None"
  by (simp add: min_rmsd_eval)

section \<open>The minimum finder\<close>

text \<open>
  C1. \<open>min_rmsd\<close> scans the indices from 2 to \<open>len(rmsd_list) - 2\<close> in increasing order and
  returns the first index whose value is strictly below both neighbours: it returns \<open>i\<close>
  exactly when \<open>i\<close> lies in that range, is a strict local minimum, and no smaller index of
  the range is one. On \<open>[5,4,3,2,3,4,5]\<close> it returns 3.
\<close>

theorem min_rmsd_first_strict_local_min:
  "(min_rmsd rmsd_list = Inr (Some i) \<longleftrightarrow>
      2 \<le> i \<and> i \<le> int (length rmsd_list) - 2 \<and> strict_local_min rmsd_list i \<and>
      (\<forall>j. 2 \<le> j \<and> j < i \<longrightarrow> \<not> strict_local_min rmsd_list j)) \<and>
   min_rmsd [5, 4, 3, 2, 3, 4, 5] = Inr (Some 3)"
proof
  show "min_rmsd rmsd_list = Inr (Some i) \<longleftrightarrow>
      2 \<le> i \<and> i \<le> int (length rmsd_list) - 2 \<and> strict_local_min rmsd_list i \<and>
      (\<forall>j. 2 \<le> j \<and> j < i \<longrightarrow> \<not> strict_local_min rmsd_list j)"
    by (rule min_rmsd_Some_iff)
  show "min_rmsd [5, 4, 3, 2, 3, 4, 5] = Inr (Some 3)"
    by (simp add: min_rmsd_eval)
qed

text \<open>The characterisation at \<open>[5,4,3,2,3,4,5]\<close> and index 3.\<close>

theorem min_rmsd_first_strict_local_min_witness:
  "min_rmsd [5, 4, 3, 2, 3, 4, 5] = Inr (Some 3) \<and>
   (2::int) \<le> 3 \<and> 3 \<le> int (length [5, 4, 3, 2, 3, 4, 5 :: real]) - 2 \<and>
   strict_local_min [5, 4, 3, 2, 3, 4, 5] 3 \<and> \<not> strict_local_min [5, 4, 3, 2, 3, 4, 5] 2"
proof -
  have found: "min_rmsd [5, 4, 3, 2, 3, 4, 5] = Inr (Some 3)"
    by (simp add: min_rmsd_eval)
  from min_rmsd_first_strict_local_min[of "[5, 4, 3, 2, 3, 4, 5]" 3] found
  have "2 \<le> (3::int) \<and> 3 \<le> int (length [5, 4, 3, 2, 3, 4, 5 :: real]) - 2 \<and>
        strict_local_min [5, 4, 3, 2, 3, 4, 5] 3 \<and>
        (\<forall>j. 2 \<le> j \<and> j < 3 \<longrightarrow> \<not> strict_local_min [5, 4, 3, 2, 3, 4, 5] j)"
    by blast
  then show ?thesis
    using found by simp
qed

text \<open>
  C5. On a list with no strict local minimum at any index from 2 to \<open>len - 2\<close>, \<open>min_rmsd\<close>
  raises nothing and returns no index: its result is \<open>None\<close>. The decreasing list
  \<open>[5,4,3,2,1]\<close> is such a list.
\<close>

theorem min_rmsd_not_found:
  "((\<forall>i. 2 \<le> i \<and> i \<le> int (length rmsd_list) - 2 \<longrightarrow> \<not> strict_local_min rmsd_list i) \<longrightarrow>
      min_rmsd rmsd_list = Inr None) \<and>
   min_rmsd [5, 4, 3, 2, 1] = Inr None"
proof
  show "(\<forall>i. 2 \<le> i \<and> i \<le> int (length rmsd_list) - 2 \<longrightarrow> \<not> strict_local_min rmsd_list i) \<longrightarrow>
      min_rmsd rmsd_list = Inr None"
    by (simp add: min_rmsd_None_iff)
  show "min_rmsd [5, 4, 3, 2, 1] = Inr None"
    by (simp add: min_rmsd_eval)
qed

text \<open>A decreasing list of six values: none of the scanned indices 2, 3, 4 is a minimum.\<close>

theorem min_rmsd_not_found_witness:
  "\<not> strict_local_min [9, 7, 4, 2, 1, 0] 2 \<and> \<not> strict_local_min [9, 7, 4, 2, 1, 0] 3 \<and>
   \<not> strict_local_min [9, 7, 4, 2, 1, 0] 4 \<and> min_rmsd [9, 7, 4, 2, 1, 0] = Inr None"
proof -
  have no: "\<not> strict_local_min [9, 7, 4, 2, 1, 0] 2" "\<not> strict_local_min [9, 7, 4, 2, 1, 0] 3"
      "\<not> strict_local_min [9, 7, 4, 2, 1, 0] 4"
    by (simp_all add: strict_local_min_def)
  have "\<not> strict_local_min [9, 7, 4, 2, 1, 0] i"
    if "2 \<le> i \<and> i \<le> int (length [9, 7, 4, 2, 1, 0 :: real]) - 2" for i
  proof -
    from that have "i = 2 \<or> i = 3 \<or> i = 4" by auto
    with no show ?thesis by blast
  qed
  with min_rmsd_not_found[of "[9, 7, 4, 2, 1, 0]"] have "min_rmsd [9, 7, 4, 2, 1, 0] = Inr None"
    by blast
  with no show ?thesis by simp
qed

section \<open>The RMSD calculator\<close>

text \<open>
  C3. For two index sequences of the same length \<open>N > 0\<close> whose entries are valid atom
  indices of the structure, \<open>rmsd\<close> returns the square root of the sum, over the positions
  \<open>i\<close> below \<open>N\<close>, of the squared differences in x, y and z between atom \<open>chain_1[i]\<close> and
  atom \<open>chain_2[i]\<close>, divided by \<open>N\<close>, times 10.
\<close>

theorem rmsd_formula:
  assumes "length chain_1 = length chain_2" and "0 < length chain_1"
    and "\<forall>a\<in>set chain_1 \<union> set chain_2. valid_atom_index s a"
  shows "rmsd chain_1 chain_2 s =
           Inr (sqrt ((\<Sum>i<length chain_1. sq_dist (atom_xyz s (chain_1 ! i)) (atom_xyz s (chain_2 ! i)))
                       / real (length chain_1)) * 10)"
proof -
  let ?S = "\<Sum>i<length chain_1. sq_dist (atom_xyz s (chain_1 ! i)) (atom_xyz s (chain_2 ! i))"
  have "\<forall>i<length chain_1. valid_atom_index s (chain_1 ! i) \<and> valid_atom_index s (chain_2 ! i)"
    using assms(1,3) by simp
  then have "for_loop (range_py 0 (int (length chain_1))) (rmsd_body chain_1 chain_2 s) 0 = Inr ?S"
    unfolding range_py_nat using assms(1) by (intro rmsd_loop_valid) simp_all
  moreover have "0 \<le> ?S / real (length chain_1)"
    by (intro divide_nonneg_nonneg sum_sq_dist_nonneg) simp
  ultimately show ?thesis
    using assms(2) by (simp add: rmsd_def Let_def not_less)
qed

text \<open>Atoms 0 and 1 of \<open>two_atoms\<close> are one unit apart: the RMSD of the two is 10.\<close>

theorem rmsd_formula_witness:
  "length [0 :: int] = length [1 :: int] \<and> 0 < length [0 :: int] \<and>
   valid_atom_index two_atoms 0 \<and> valid_atom_index two_atoms 1 \<and>
   rmsd [0] [1] two_atoms = Inr 10"
proof -
  have v: "valid_atom_index two_atoms 0" "valid_atom_index two_atoms 1"
    by (simp_all add: valid_atom_index_def two_atoms_def)
  then have "\<forall>a\<in>set [0] \<union> set [1]. valid_atom_index two_atoms a"
    by simp
  from rmsd_formula[of "[0]" "[1]" two_atoms, OF _ _ this]
  have "rmsd [0] [1] two_atoms = Inr 10"
    by (simp add: sq_dist_def atom_xyz_def two_atoms_def)
  with v show ?thesis by simp
qed

text \<open>
  C8. \<open>rmsd\<close> is symmetric in its two chains: for index sequences of equal length,
  \<open>rmsd(A, B, S)\<close> and \<open>rmsd(B, A, S)\<close> have the same outcome, the same number when the indices
  are valid.
\<close>

theorem rmsd_symmetric:
  assumes "length chain_1 = length chain_2"
  shows "rmsd chain_1 chain_2 s = rmsd chain_2 chain_1 s"
proof -
  have "rmsd_body chain_1 chain_2 s = rmsd_body chain_2 chain_1 s"
    by (intro ext) (rule rmsd_body_commute)
  with assms show ?thesis
    by (simp add: rmsd_def)
qed

text \<open>The two atoms of \<open>two_atoms\<close>, compared in either order.\<close>

theorem rmsd_symmetric_witness:
  "length [0, 1 :: int] = length [1, 0 :: int] \<and>
   rmsd [0, 1] [1, 0] two_atoms = rmsd [1, 0] [0, 1] two_atoms \<and>
   rmsd [0, 1] [1, 0] two_atoms = Inr 10"
proof -
  have "rmsd [0, 1] [1, 0] two_atoms = Inr 10"
    by (simp add: rmsd_eval two_atoms_def)
  with rmsd_symmetric[of "[0, 1]" "[1, 0]" two_atoms] show ?thesis
    by simp
qed

text \<open>
  C10. With an empty first chain the loop does not run and the division \<open>summ/N\<close> divides by
  zero: \<open>rmsd\<close> raises \<open>ZeroDivisionError\<close>, whatever the second chain and the structure.
\<close>

theorem rmsd_empty_chain: "rmsd [] chain_2 s = Inl ZeroDivisionError"
  by (simp add: rmsd_def range_py_def)

text \<open>An empty first chain against both atoms of \<open>two_atoms\<close>.\<close>

theorem rmsd_empty_chain_witness: "rmsd [] [0, 1] two_atoms = Inl ZeroDivisionError"
  by (rule rmsd_empty_chain)

text \<open>
  C4, as the code has it. \<open>rmsd\<close> compares no lengths. When \<open>chain_1\<close> is the longer chain
  the subscript \<open>chain_2[i]\<close> runs out of range and \<open>IndexError\<close> is raised. When \<open>chain_1\<close>
  is the shorter chain the mismatch raises nothing: the outcome is that of \<open>rmsd\<close> on
  \<open>chain_1\<close> and the first \<open>len(chain_1)\<close> entries of \<open>chain_2\<close>.
\<close>

theorem rmsd_unequal_length:
  "(length chain_2 < length chain_1 \<longrightarrow> rmsd chain_1 chain_2 s = Inl IndexError) \<and>
   (length chain_1 < length chain_2 \<longrightarrow>
      rmsd chain_1 chain_2 s = rmsd chain_1 (take (length chain_1) chain_2) s)"
proof (intro conjI impI)
  assume "length chain_2 < length chain_1"
  then show "rmsd chain_1 chain_2 s = Inl IndexError"
    by (simp add: rmsd_def range_py_nat rmsd_loop_short)
next
  assume lt: "length chain_1 < length chain_2"
  have "for_loop (map int [0..<length chain_1])
          (rmsd_body chain_1 (take (length chain_1) chain_2) s) 0
        = for_loop (map int [0..<length chain_1]) (rmsd_body chain_1 chain_2 s) 0"
    using lt by (intro rmsd_loop_take) auto
  then show "rmsd chain_1 chain_2 s = rmsd chain_1 (take (length chain_1) chain_2) s"
    by (simp add: rmsd_def range_py_nat)
qed

text \<open>Both directions on \<open>two_atoms\<close>: a longer and a shorter first chain.\<close>

theorem rmsd_unequal_length_witness:
  "length [1 :: int] < length [0, 1 :: int] \<and> rmsd [0, 1] [1] two_atoms = Inl IndexError \<and>
   rmsd [1] [0, 1] two_atoms = rmsd [1] (take (length [1 :: int]) [0, 1]) two_atoms \<and>
   rmsd [1] [0, 1] two_atoms = Inr 10"
proof -
  have "rmsd [1] [0, 1] two_atoms = Inr 10"
    by (simp add: rmsd_eval two_atoms_def)
  with rmsd_unequal_length[of "[1]" "[0, 1]" two_atoms] rmsd_unequal_length[of "[0, 1]" "[1]" two_atoms]
  show ?thesis by simp
qed

text \<open>
  Unequal lengths do not always raise: with chains of lengths 1 and 2 \<open>rmsd\<close> returns a
  number, computed from the first entry of the longer chain only.
\<close>

theorem rmsd_unequal_length_counterexample:
  "length [1 :: int] \<noteq> length [0, 1 :: int] \<and> rmsd [1] [0, 1] two_atoms = Inr 10"
  by (simp add: rmsd_eval two_atoms_def)

section \<open>The RMSD list\<close>

text \<open>
  C6. For \<open>list_len = 1\<close> the only copy is \<open>c0\<close>, yet the function issues the deletion
  \<open>/c1//A\<close>; for \<open>list_len = 3\<close> the copies are \<open>c0\<close>, \<open>c1\<close>, \<open>c2\<close> and the deletions target
  \<open>c1\<close>, \<open>c2\<close> and \<open>c3\<close>: one deletion more than the copies 1 to \<open>list_len - 1\<close>, aimed at
  a copy that was never made. The alignment loop above it stops at \<open>list_len - 2\<close>.
\<close>

theorem pymol_calls_delete_overshoot:
  "pymol_calls ''.'' ''dimer.pdb'' 1 ''temporary_file.pdb'' =
     [Reinitialize, Load ''./dimer.pdb'', Copy ''c0'' ''dimer'',
      Delete ''/c1//A'', Select ''all'', Save ''temporary_file.pdb''] \<and>
   pymol_calls ''.'' ''dimer.pdb'' 3 ''temporary_file.pdb'' =
     [Reinitialize, Load ''./dimer.pdb'',
      Copy ''c0'' ''dimer'', Copy ''c1'' ''dimer'', Copy ''c2'' ''dimer'',
      Align ''/c1//A'' ''/c0//B'', Align ''/c2//A'' ''/c1//B'',
      Delete ''/c1//A'', Delete ''/c2//A'', Delete ''/c3//A'',
      Select ''all'', Save ''temporary_file.pdb'']"
  by (simp add: rmsd_list_eval)

text \<open>
  C7, as the code has it. When \<open>rmsd_list_from_dimer\<close> returns and \<open>list_len\<close> is at least 1,
  the list has exactly \<open>list_len\<close> values and the value at index 0 is 0; when \<open>list_len\<close> is
  0 or negative, the list is empty.
\<close>

theorem rmsd_list_from_dimer_result:
  assumes "rmsd_list_from_dimer lib w filepath filename list_len temp_file = Inr rmsd_list"
  shows "(1 \<le> list_len \<longrightarrow> int (length rmsd_list) = list_len \<and> getitem rmsd_list 0 = Inr 0) \<and>
         (list_len \<le> 0 \<longrightarrow> rmsd_list = [])"
proof -
  from assms obtain st where
    loop: "for_loop (range_py 0 list_len)
             (append_rmsd (map (chain_of st) (range_py 0 (2 * list_len))) st) [] = Inr rmsd_list"
    unfolding rmsd_list_from_dimer_def Let_def by (auto simp: bindE_eq_Inr)
  let ?cl = "map (chain_of st) (range_py 0 (2 * list_len))"
  have len: "length rmsd_list = nat list_len"
    using append_loop_extends[OF loop] by (simp add: length_range_py)
  have first: "getitem rmsd_list 0 = Inr 0" if pos: "1 \<le> list_len"
  proof -
    from pos have "range_py 0 list_len = 0 # range_py 1 list_len"
      using range_py_Cons[of 0 list_len] by simp
    with loop obtain l1 where
      step: "append_rmsd ?cl st 0 [] = Inr l1" and
      rest: "for_loop (range_py 1 list_len) (append_rmsd ?cl st) l1 = Inr rmsd_list"
      by (auto split: sum.splits)
    from append_rmsd_Inr[OF step] obtain c0 r where "rmsd c0 c0 st = Inr r" "l1 = [r]"
      by auto
    then have l1: "l1 = [0]"
      by (auto dest: rmsd_self)
    from append_loop_extends[OF rest] l1 have "take 1 rmsd_list = [0]"
      by simp
    then have "rmsd_list \<noteq> []" "rmsd_list ! 0 = 0"
      by (cases rmsd_list; simp)+
    then show ?thesis by (simp add: getitem_def)
  qed
  show ?thesis
    using len first by auto
qed

text \<open>Four protomers from \<open>eight_chains\<close>, and none from \<open>two_atoms\<close>.\<close>

theorem rmsd_list_from_dimer_result_witness:
  "rmsd_list_from_dimer (fixed_library eight_chains) () ''.'' ''dimer.pdb'' 4 ''temporary_file.pdb''
     = Inr [0, 20, 10, 30] \<and>
   (1 :: int) \<le> 4 \<and> int (length [0, 20, 10, 30 :: real]) = 4 \<and> getitem [0, 20, 10, 30 :: real] 0 = Inr 0 \<and>
   rmsd_list_from_dimer (fixed_library two_atoms) () ''.'' ''dimer.pdb'' 0 ''temporary_file.pdb''
     = Inr []"
proof -
  have z: "rmsd_list_from_dimer (fixed_library two_atoms) () ''.'' ''dimer.pdb'' 0
             ''temporary_file.pdb'' = Inr []"
    by (simp add: rmsd_list_eval)
  from rmsd_list_from_dimer_result[OF eight_chains_4] rmsd_list_from_dimer_result[OF z]
    eight_chains_4 z
  show ?thesis by simp
qed

text \<open>
  At \<open>list_len = 0\<close> and below the function returns the empty list, which has no value at
  index 0 and, for \<open>list_len = -1\<close>, not \<open>list_len\<close> values.
\<close>

theorem rmsd_list_from_dimer_result_counterexample:
  "rmsd_list_from_dimer (fixed_library two_atoms) () ''.'' ''dimer.pdb'' 0 ''temporary_file.pdb''
     = Inr [] \<and>
   getitem ([] :: real list) 0 = Inl IndexError \<and>
   rmsd_list_from_dimer (fixed_library two_atoms) () ''.'' ''dimer.pdb'' (- 1) ''temporary_file.pdb''
     = Inr [] \<and>
   int (length ([] :: real list)) \<noteq> - 1"
  by (simp add: rmsd_list_eval)

section \<open>The stoichiometry predictor\<close>

text \<open>
  C2. Whenever \<open>rmsd_list_from_dimer\<close> returns a list, \<open>predict_stoichiometry\<close> returns
  \<open>min_rmsd\<close> of that list minus 1 when \<open>min_rmsd\<close> finds a strict local minimum, and raises
  (\<open>TypeError\<close>, from \<open>None - 1\<close>) when \<open>min_rmsd\<close> finds none; \<open>min_rmsd\<close> itself never raises,
  so these are the only two cases.
\<close>

theorem predict_stoichiometry_result:
  assumes "rmsd_list_from_dimer lib w filepath filename max_expected_stoichiometry
             ''temporary_file.pdb'' = Inr rmsd_list"
  shows "(min_rmsd rmsd_list = Inr (Some i) \<longrightarrow>
            predict_stoichiometry lib w filepath filename max_expected_stoichiometry = Inr (i - 1)) \<and>
         (min_rmsd rmsd_list = Inr None \<longrightarrow>
            predict_stoichiometry lib w filepath filename max_expected_stoichiometry = Inl TypeError) \<and>
         (\<exists>m. min_rmsd rmsd_list = Inr m)"
  using assms by (simp add: predict_stoichiometry_def min_rmsd_find)

text \<open>
  \<open>eight_chains\<close> with four protomers has its dip at index 2, so the prediction is 1; with
  three protomers no index is scanned and the call raises.
\<close>

theorem predict_stoichiometry_result_witness:
  "rmsd_list_from_dimer (fixed_library eight_chains) () ''.'' ''dimer.pdb'' 4 ''temporary_file.pdb''
     = Inr [0, 20, 10, 30] \<and>
   min_rmsd [0, 20, 10, 30] = Inr (Some 2) \<and>
   predict_stoichiometry (fixed_library eight_chains) () ''.'' ''dimer.pdb'' 4 = Inr 1 \<and>
   rmsd_list_from_dimer (fixed_library eight_chains) () ''.'' ''dimer.pdb'' 3 ''temporary_file.pdb''
     = Inr [0, 20, 10] \<and>
   min_rmsd [0, 20, 10] = Inr None \<and>
   predict_stoichiometry (fixed_library eight_chains) () ''.'' ''dimer.pdb'' 3 = Inl TypeError"
  using predict_stoichiometry_result[OF eight_chains_4, of 2]
    predict_stoichiometry_result[OF eight_chains_3, of 0]
    eight_chains_4 eight_chains_3 min_rmsd_dip min_rmsd_no_dip
  by simp

text \<open>
  C9. An index returned by \<open>min_rmsd\<close> lies between 2 and \<open>len(rmsd_list) - 2\<close>; so a list
  of at most three values gives \<open>None\<close>, even with a strict minimum at index 1, and a result
  of \<open>predict_stoichiometry\<close> is at least 1.
\<close>

theorem min_rmsd_index_bounds:
  "(min_rmsd rmsd_list = Inr (Some i) \<longrightarrow> 2 \<le> i \<and> i \<le> int (length rmsd_list) - 2) \<and>
   (length short_list \<le> 3 \<longrightarrow> min_rmsd short_list = Inr None) \<and>
   (predict_stoichiometry lib w filepath filename max_expected_stoichiometry = Inr n \<longrightarrow> 1 \<le> n)"
proof (intro conjI impI)
  assume "min_rmsd rmsd_list = Inr (Some i)"
  then show "2 \<le> i" "i \<le> int (length rmsd_list) - 2"
    by (simp_all add: min_rmsd_Some_iff)
next
  assume "length short_list \<le> 3"
  then show "min_rmsd short_list = Inr None"
    by (simp add: min_rmsd_find)
next
  assume "predict_stoichiometry lib w filepath filename max_expected_stoichiometry = Inr n"
  then obtain rmsd_list i where "min_rmsd rmsd_list = Inr (Some i)" "n = i - 1"
    unfolding predict_stoichiometry_def
    by (auto simp: bindE_eq_Inr split: option.splits)
  then show "1 \<le> n"
    by (simp add: min_rmsd_Some_iff)
qed

text \<open>
  An index within its bounds, the three-value list \<open>[3,1,2]\<close> with its minimum at index 1,
  and the prediction 1 from \<open>eight_chains\<close>.
\<close>

theorem min_rmsd_index_bounds_witness:
  "min_rmsd [5, 4, 3, 2, 3, 4, 5] = Inr (Some 3) \<and>
   2 \<le> (3::int) \<and> 3 \<le> int (length [5, 4, 3, 2, 3, 4, 5 :: real]) - 2 \<and>
   length [3, 1, 2 :: real] \<le> 3 \<and> strict_local_min [3, 1, 2] 1 \<and> min_rmsd [3, 1, 2] = Inr None \<and>
   predict_stoichiometry (fixed_library eight_chains) () ''.'' ''dimer.pdb'' 4 = Inr 1 \<and>
   (1::int) \<le> 1"
proof -
  have a: "min_rmsd [5, 4, 3, 2, 3, 4, 5] = Inr (Some 3)"
    by (simp add: min_rmsd_eval)
  have b: "length [3, 1, 2 :: real] \<le> 3"
    by simp
  have c: "predict_stoichiometry (fixed_library eight_chains) () ''.'' ''dimer.pdb'' 4 = Inr 1"
    by (simp add: predict_stoichiometry_def eight_chains_4 min_rmsd_dip)
  have d: "strict_local_min [3, 1, 2] 1"
    by (simp add: strict_local_min_def)
  from min_rmsd_index_bounds[of "[5, 4, 3, 2, 3, 4, 5]" 3 "[3, 1, 2]"
      "fixed_library eight_chains" "()" "''.''" "''dimer.pdb''" 4 1] a b c d
  show ?thesis by simp
qed

end
